theory Spec2Isabelle
  imports Main
begin

section \<open>Data model of \<open>app.py\<close>\<close>

text \<open>
  A websocket connection object \<open>ws\<close> is used by the program only by identity (it is
  stored in a room, compared for truth, and sent to), so a connection is a number.
  Strings and byte strings are lists of characters; a code such as \<open>AB12C\<close> is \<open>''AB12C''\<close>.
\<close>

type_synonym chan = nat
type_synonym bytes = string

text \<open>The two values \<open>my_role\<close> takes besides \<open>None\<close>: \<open>'sender'\<close> and \<open>'receiver'\<close>.\<close>

datatype role = Sender | Receiver

text \<open>
  One value of the dictionary \<open>rooms\<close>:
  \<open>{'sender': ws, 'receiver': ws, 'filename': name, 'file_data': data}\<close>,
  every field \<open>None\<close> or set.
\<close>

record room =
  sender :: "chan option"
  receiver :: "chan option"
  filename :: "string option"
  file_data :: "bytes option"

text \<open>
  JSON values as far as the program looks at them: a string, a number, or anything else.
  A JSON object is the list of its key/value pairs, read with \<open>map_of\<close> as \<open>dict.get\<close>.
\<close>

datatype jval = JStr string | JNum int | JOther

type_synonym json_obj = "(string \<times> jval) list"

text \<open>
  What \<open>ws.receive()\<close> hands to the loop, classified by what the next two statements do
  with it: \<open>Empty\<close> is falsy data (\<open>if not data: continue\<close>); \<open>Invalid_json\<close> is text on
  which \<open>json.loads\<close> raises; \<open>Non_object\<close> is JSON that is not an object, on which
  \<open>message.get\<close> raises; \<open>Object kv\<close> is a JSON object.
\<close>

datatype frame = Empty | Invalid_json | Non_object | Object json_obj

text \<open>
  The state shared by all handlers. \<open>rooms\<close> is the global dictionary. \<open>outbox\<close> records
  every message a \<open>send\<close> delivered, oldest first, with the connection it went to.
  \<open>closed\<close> holds the connections on which \<open>send\<close> raises (the peer is gone: the
  cleanup code's comment "Receiver might already be disconnected"). \<open>draws\<close> is the
  sequence of strings the successive calls of
  \<open>''.join(random.choices(string.ascii_uppercase + string.digits, k=length))\<close> will yield.
  \<open>unicode_upper\<close> is what \<open>str.upper()\<close> returns for text that holds a character outside
  ASCII: Python's Unicode case tables, which are no part of the program (they can change the
  length of the text), so the server is handed them as it is handed its random draws.
\<close>

record state =
  rooms :: "string \<rightharpoonup> room"
  outbox :: "(chan \<times> json_obj) list"
  closed :: "chan set"
  draws :: "nat \<Rightarrow> string"
  unicode_upper :: "string \<Rightarrow> string"

text \<open>The local variables \<open>my_code\<close> and \<open>my_role\<close> of one run of \<open>websocket\<close>.\<close>

record conn =
  my_code :: "string option"
  my_role :: "role option"

definition new_conn :: conn where
  "new_conn = \<lparr>my_code = None, my_role = None\<rparr>"

text \<open>How one pass through the body of \<open>while True\<close> ends: the loop goes on, or an
  exception leaves it for the \<open>except\<close> and \<open>finally\<close> blocks.\<close>

datatype outcome = Continue | Raised

text \<open>What a request handler gives back to Flask: a body with a status, the file sent as
  an attachment, or an exception it did not catch.\<close>

datatype response =
    Resp string nat
  | Send_file bytes "string option"
  | Unhandled_exception

section \<open>Strings\<close>

text \<open>
  \<open>str.upper()\<close>. On text of ASCII characters only, the letters \<open>a\<close> to \<open>z\<close> move to \<open>A\<close> to
  \<open>Z\<close> and nothing else changes: that is \<open>upper\<close>. On any other text the result is the one
  the state's \<open>unicode_upper\<close> gives.
\<close>

definition upper_char :: "char \<Rightarrow> char" where
  "upper_char c =
     (let n = (of_char c :: nat) in if 97 \<le> n \<and> n \<le> 122 then char_of (n - 32) else c)"

definition upper :: "string \<Rightarrow> string" where
  "upper s = map upper_char s"

definition is_ascii :: "string \<Rightarrow> bool" where
  "is_ascii x = list_all (\<lambda>c. (of_char c :: nat) < 128) x"

definition str_upper :: "state \<Rightarrow> string \<Rightarrow> string" where
  "str_upper s x = (if is_ascii x then upper x else unicode_upper s x)"

section \<open>The code generator\<close>

text \<open>
  \<open>generate_code\<close>: \<open>while True\<close>, draw a candidate, return it if it is not a key of
  \<open>rooms\<close>. The result carries the draws left for later calls. \<open>None\<close> is the loop that
  never returns.
\<close>

partial_function (option) generate_code ::
  "(string \<rightharpoonup> room) \<Rightarrow> (nat \<Rightarrow> string) \<Rightarrow> (string \<times> (nat \<Rightarrow> string)) option" where
  "generate_code rms ds =
     (if rms (ds 0) = None then Some (ds 0, \<lambda>i. ds (Suc i))
      else generate_code rms (\<lambda>i. ds (Suc i)))"

section \<open>Sending\<close>

text \<open>\<open>ws.send(json.dumps(m))\<close>: raises on a closed connection (\<open>None\<close>), delivers
  otherwise.\<close>

definition send :: "chan \<Rightarrow> json_obj \<Rightarrow> state \<Rightarrow> state option" where
  "send ws m s =
     (if ws \<in> closed s then None else Some (s\<lparr>outbox := outbox s @ [(ws, m)]\<rparr>))"

text \<open>The messages the server builds.\<close>

definition code_generated :: "string \<Rightarrow> json_obj" where
  "code_generated code = [(''type'', JStr ''code_generated''), (''code'', JStr code)]"

definition receiver_joined :: json_obj where
  "receiver_joined = [(''type'', JStr ''receiver_joined'')]"

definition join_ack :: json_obj where
  "join_ack = [(''type'', JStr ''wating_for_file'')]"

definition error_msg :: "string \<Rightarrow> json_obj" where
  "error_msg text = [(''type'', JStr ''error''), (''message'', JStr text)]"

definition file_ready :: "string \<Rightarrow> bytes \<Rightarrow> json_obj" where
  "file_ready name data =
     [(''type'', JStr ''file_ready''), (''filename'', JStr name),
      (''filesize'', JNum (int (length data)))]"

section \<open>The websocket handler\<close>

text \<open>The dictionary \<open>register_sender\<close> stores for a new room.\<close>

definition fresh_room :: "chan \<Rightarrow> room" where
  "fresh_room ws = \<lparr>sender = Some ws, receiver = None, filename = None, file_data = None\<rparr>"

text \<open>The branch \<open>msg_type == 'register_sender'\<close>.\<close>

definition register_sender :: "chan \<Rightarrow> conn \<Rightarrow> state \<Rightarrow> (outcome \<times> conn \<times> state) option" where
  "register_sender ws c s =
     (case generate_code (rooms s) (draws s) of
        None \<Rightarrow> None
      | Some (code, rest) \<Rightarrow>
          let c' = \<lparr>my_code = Some code, my_role = Some Sender\<rparr>;
              s1 = s\<lparr>rooms := (rooms s)(code \<mapsto> fresh_room ws), draws := rest\<rparr>
          in (case send ws (code_generated code) s1 of
                None \<Rightarrow> Some (Raised, c', s1)
              | Some s2 \<Rightarrow> Some (Continue, c', s2)))"

text \<open>The \<open>else\<close> of the receiver branch: the error reply.\<close>

definition reject :: "chan \<Rightarrow> conn \<Rightarrow> state \<Rightarrow> (outcome \<times> conn \<times> state) option" where
  "reject ws c s =
     (case send ws (error_msg ''Invalid or expired code.'') s of
        None \<Rightarrow> Some (Raised, c, s)
      | Some s1 \<Rightarrow> Some (Continue, c, s1))"

text \<open>
  The branch \<open>msg_type == 'register_receiver'\<close>. \<open>message.get('code', '')\<close> is the empty
  string when the key is absent; \<open>.upper()\<close> raises on a value that is not a string.
\<close>

definition register_receiver ::
  "chan \<Rightarrow> json_obj \<Rightarrow> conn \<Rightarrow> state \<Rightarrow> (outcome \<times> conn \<times> state) option" where
  "register_receiver ws message c s =
     (case (case map_of message ''code'' of
              None \<Rightarrow> Some []
            | Some (JStr x) \<Rightarrow> Some x
            | Some _ \<Rightarrow> None) of
        None \<Rightarrow> Some (Raised, c, s)
      | Some raw \<Rightarrow>
          let code = str_upper s raw in
          (case rooms s code of
             None \<Rightarrow> reject ws c s
           | Some r \<Rightarrow>
               if receiver r = None then
                 let c' = \<lparr>my_code = Some code, my_role = Some Receiver\<rparr>;
                     s1 = s\<lparr>rooms := (rooms s)(code \<mapsto> r\<lparr>receiver := Some ws\<rparr>)\<rparr>
                 in (case (case sender r of
                             None \<Rightarrow> Some s1
                           | Some sender_ws \<Rightarrow> send sender_ws receiver_joined s1) of
                       None \<Rightarrow> Some (Raised, c', s1)
                     | Some s2 \<Rightarrow>
                         (case send ws join_ack s2 of
                            None \<Rightarrow> Some (Raised, c', s2)
                          | Some s3 \<Rightarrow> Some (Continue, c', s3)))
               else reject ws c s))"

text \<open>
  One pass through the body of \<open>while True\<close> with the data \<open>ws.receive()\<close> returned.
  \<open>None\<close>: the pass never ends (the code generator does not return).
\<close>

definition handle_message ::
  "chan \<Rightarrow> frame \<Rightarrow> conn \<Rightarrow> state \<Rightarrow> (outcome \<times> conn \<times> state) option" where
  "handle_message ws data c s =
     (case data of
        Empty \<Rightarrow> Some (Continue, c, s)
      | Invalid_json \<Rightarrow> Some (Raised, c, s)
      | Non_object \<Rightarrow> Some (Raised, c, s)
      | Object message \<Rightarrow>
          if map_of message ''type'' = Some (JStr ''register_sender'')
          then register_sender ws c s
          else if map_of message ''type'' = Some (JStr ''register_receiver'')
          then register_receiver ws message c s
          else Some (Continue, c, s))"

text \<open>A send inside \<open>try: ... except: pass\<close>.\<close>

definition try_send :: "chan \<Rightarrow> json_obj \<Rightarrow> state \<Rightarrow> state" where
  "try_send ws m s = (case send ws m s of None \<Rightarrow> s | Some s1 \<Rightarrow> s1)"

text \<open>
  The \<open>finally\<close> block. \<open>if my_code and my_code in rooms\<close>: an empty string is falsy.
\<close>

definition cleanup :: "chan \<Rightarrow> conn \<Rightarrow> state \<Rightarrow> state" where
  "cleanup ws c s =
     (case my_code c of
        None \<Rightarrow> s
      | Some code \<Rightarrow>
          if code = [] then s
          else (case rooms s code of
                  None \<Rightarrow> s
                | Some r \<Rightarrow>
                    let s1 =
                      (if my_role c = Some Sender \<and> receiver r \<noteq> None
                       then (case receiver r of
                               Some receiver_ws \<Rightarrow>
                                 try_send receiver_ws (error_msg ''Sender disconnected.'') s
                             | None \<Rightarrow> s)
                       else if my_role c = Some Receiver \<and> sender r \<noteq> None
                       then (case sender r of
                               Some sender_ws \<Rightarrow>
                                 try_send sender_ws (error_msg ''Receiver disconnected.'') s
                             | None \<Rightarrow> s)
                       else s)
                    in s1\<lparr>rooms := (rooms s1)(code := None)\<rparr>))"

section \<open>The HTTP handlers\<close>

text \<open>
  A POST to \<open>/upload\<close>: \<open>request.form.get('code')\<close>, and the entry \<open>'file'\<close> of
  \<open>request.files\<close> when there is one, with its \<open>filename\<close> and the bytes \<open>read()\<close> returns.
\<close>

record upload_request =
  form_code :: "string option"
  file_part :: "(string \<times> bytes) option"

definition upload_file :: "upload_request \<Rightarrow> state \<Rightarrow> response \<times> state" where
  "upload_file req s =
     (case file_part req of
        None \<Rightarrow> (Resp ''Invalid request'' 400, s)
      | Some (name, file_bytes) \<Rightarrow>
          (case form_code req of
             None \<Rightarrow> (Resp ''Invalid request'' 400, s)
           | Some code \<Rightarrow>
               if code = [] then (Resp ''Invalid request'' 400, s)
               else (case rooms s code of
                       None \<Rightarrow> (Resp ''Invalid request'' 400, s)
                     | Some r \<Rightarrow>
                         if name = [] then (Resp ''No selected file'' 400, s)
                         else
                           let s1 = s\<lparr>rooms := (rooms s)(code \<mapsto>
                                      r\<lparr>filename := Some name, file_data := Some file_bytes\<rparr>)\<rparr>
                           in (case receiver r of
                                 None \<Rightarrow> (Resp ''Receiver not connected.'' 400, s1)
                               | Some receiver_ws \<Rightarrow>
                                   (case send receiver_ws (file_ready name file_bytes) s1 of
                                      None \<Rightarrow> (Unhandled_exception, s1)
                                    | Some s2 \<Rightarrow>
                                        (Resp ''File uploaded and receiver notified.'' 200, s2))))))"

text \<open>A GET of \<open>/download\<close> with \<open>request.args.get('code')\<close>. The handler writes nothing;
  the state is returned as it came.\<close>

definition download_file :: "string option \<Rightarrow> state \<Rightarrow> response \<times> state" where
  "download_file code s =
     (case code of
        None \<Rightarrow> (Resp ''Invalid download link.'' 400, s)
      | Some k \<Rightarrow>
          if k = [] then (Resp ''Invalid download link.'' 400, s)
          else (case rooms s k of
                  None \<Rightarrow> (Resp ''Invalid download link.'' 400, s)
                | Some r \<Rightarrow>
                    (case file_data r of
                       Some file_bytes \<Rightarrow> (Send_file file_bytes (filename r), s)
                     | None \<Rightarrow> (Resp ''File not found or link expired.'' 404, s))))"

section \<open>The server as a whole\<close>

text \<open>
  What can happen to the server: a client opens a websocket, a websocket delivers data,
  a client goes away (the blocked \<open>ws.receive()\<close> raises), a POST to \<open>/upload\<close>, a GET
  of \<open>/download\<close>. The server's state is the shared \<open>state\<close> and, for every running
  \<open>websocket\<close> call, its local variables.
\<close>

datatype event =
    Ws_connect chan
  | Ws_message chan frame
  | Ws_close chan
  | Post_upload upload_request
  | Get_download "string option"

type_synonym system = "(chan \<rightharpoonup> conn) \<times> state"

text \<open>
  One event. A handler whose loop is left by an exception runs its \<open>finally\<close> block and
  returns, after which the connection is closed; a client that goes away closes the
  connection first, and the handler then runs the same block. \<open>None\<close>: the event's
  handler never returns.
\<close>

definition step :: "event \<Rightarrow> system \<Rightarrow> system option" where
  "step e sys =
     (case sys of (conns, s) \<Rightarrow>
        (case e of
           Ws_connect ws \<Rightarrow>
             if conns ws = None \<and> ws \<notin> closed s then Some (conns(ws \<mapsto> new_conn), s)
             else Some (conns, s)
         | Ws_message ws data \<Rightarrow>
             (case conns ws of
                None \<Rightarrow> Some (conns, s)
              | Some c \<Rightarrow>
                  (case handle_message ws data c s of
                     None \<Rightarrow> None
                   | Some (Continue, c1, s1) \<Rightarrow> Some (conns(ws \<mapsto> c1), s1)
                   | Some (Raised, c1, s1) \<Rightarrow>
                       let s2 = cleanup ws c1 s1
                       in Some (conns(ws := None), s2\<lparr>closed := insert ws (closed s2)\<rparr>)))
         | Ws_close ws \<Rightarrow>
             (case conns ws of
                None \<Rightarrow> Some (conns, s)
              | Some c \<Rightarrow>
                  Some (conns(ws := None), cleanup ws c (s\<lparr>closed := insert ws (closed s)\<rparr>)))
         | Post_upload req \<Rightarrow> Some (conns, snd (upload_file req s))
         | Get_download code \<Rightarrow> Some (conns, snd (download_file code s))))"

fun run :: "event list \<Rightarrow> system \<Rightarrow> system option" where
  "run [] sys = Some sys"
| "run (e # es) sys = (case step e sys of None \<Rightarrow> None | Some sys1 \<Rightarrow> run es sys1)"


text \<open>The status line Flask answers with: the handler's own status, 200 for a file sent,
  500 for an exception the handler did not catch.\<close>

fun status :: "response \<Rightarrow> nat" where
  "status (Resp body code) = code"
| "status (Send_file file_bytes name) = 200"
| "status Unhandled_exception = 500"

section \<open>Example states\<close>

text \<open>A sender on connection 1 holds room \<open>AB12C\<close>; nobody has joined.\<close>

definition ex_waiting :: state where
  "ex_waiting =
     \<lparr>rooms = [''AB12C'' \<mapsto> fresh_room 1], outbox = [], closed = {},
      draws = (\<lambda>i. ''ZZZZ9''), unicode_upper = id\<rparr>"

text \<open>The same room after the receiver on connection 2 has joined.\<close>

definition ex_joined :: state where
  "ex_joined =
     \<lparr>rooms = [''AB12C'' \<mapsto> (fresh_room 1)\<lparr>receiver := Some 2\<rparr>], outbox = [], closed = {},
      draws = (\<lambda>i. ''ZZZZ9''), unicode_upper = id\<rparr>"

text \<open>The same room after the sender has uploaded \<open>report.pdf\<close>.\<close>

definition ex_uploaded :: state where
  "ex_uploaded =
     \<lparr>rooms = [''AB12C'' \<mapsto>
        \<lparr>sender = Some 1, receiver = Some 2, filename = Some ''report.pdf'',
         file_data = Some ''%PDF''\<rparr>],
      outbox = [], closed = {}, draws = (\<lambda>i. ''ZZZZ9''), unicode_upper = id\<rparr>"

text \<open>
  Room \<open>AB12C\<close> left behind by a sender whose connection 1 has closed (it had registered
  once more before it went away), and room \<open>QQ7QQ\<close> held by a sender on connection 2.
\<close>

definition ex_abandoned :: state where
  "ex_abandoned =
     \<lparr>rooms = [''AB12C'' \<mapsto> fresh_room 1, ''QQ7QQ'' \<mapsto> fresh_room 2], outbox = [],
      closed = {1}, draws = (\<lambda>i. ''ZZZZ9''), unicode_upper = id\<rparr>"

definition register_sender_msg :: frame where
  "register_sender_msg = Object [(''type'', JStr ''register_sender'')]"

definition register_receiver_msg :: "string \<Rightarrow> frame" where
  "register_receiver_msg code = Object [(''type'', JStr ''register_receiver''), (''code'', JStr code)]"

section \<open>Runs and what they leave behind\<close>

text \<open>The state a run of events ends in, looked at from outside: a room of the registry,
  the messages delivered, the answer to a download. \<open>None\<close> where the run never ends.\<close>

definition room_after :: "event list \<Rightarrow> system \<Rightarrow> string \<Rightarrow> room option option" where
  "room_after es sys code =
     (case run es sys of None \<Rightarrow> None | Some (conns, s) \<Rightarrow> Some (rooms s code))"

definition outbox_after :: "event list \<Rightarrow> system \<Rightarrow> (chan \<times> json_obj) list option" where
  "outbox_after es sys =
     (case run es sys of None \<Rightarrow> None | Some (conns, s) \<Rightarrow> Some (outbox s))"

definition download_after :: "event list \<Rightarrow> system \<Rightarrow> string \<Rightarrow> response option" where
  "download_after es sys code =
     (case run es sys of
        None \<Rightarrow> None
      | Some (conns, s) \<Rightarrow> Some (fst (download_file (Some code) s)))"

definition handler_after :: "event list \<Rightarrow> system \<Rightarrow> chan \<Rightarrow> conn option option" where
  "handler_after es sys ws =
     (case run es sys of None \<Rightarrow> None | Some (conns, s) \<Rightarrow> Some (conns ws))"

text \<open>
  An event disturbs the room stored under \<open>code\<close> when it is an upload naming that code, or
  the end of a handler (its client went away, or its loop was left by an exception) whose
  \<open>my_code\<close> is that code.
\<close>

definition disturbs :: "string \<Rightarrow> event \<Rightarrow> system \<Rightarrow> bool" where
  "disturbs code e sys =
     (case e of
        Post_upload req \<Rightarrow> form_code req = Some code
      | Ws_close ws \<Rightarrow>
          (case fst sys ws of None \<Rightarrow> False | Some c \<Rightarrow> my_code c = Some code)
      | Ws_message ws data \<Rightarrow>
          (case fst sys ws of
             None \<Rightarrow> False
           | Some c \<Rightarrow>
               (case handle_message ws data c (snd sys) of
                  Some (Raised, c1, s1) \<Rightarrow> my_code c1 = Some code
                | _ \<Rightarrow> False))
      | _ \<Rightarrow> False)"

fun undisturbed :: "string \<Rightarrow> event list \<Rightarrow> system \<Rightarrow> bool" where
  "undisturbed code [] sys = True"
| "undisturbed code (e # es) sys =
     (\<not> disturbs code e sys \<and>
      (case step e sys of None \<Rightarrow> True | Some sys1 \<Rightarrow> undisturbed code es sys1))"

text \<open>The room under \<open>code\<close> holds this file name and these bytes.\<close>

definition holds_payload :: "state \<Rightarrow> string \<Rightarrow> string \<Rightarrow> bytes \<Rightarrow> bool" where
  "holds_payload s code name file_bytes =
     (case rooms s code of
        None \<Rightarrow> False
      | Some r \<Rightarrow> filename r = Some name \<and> file_data r = Some file_bytes)"

section \<open>Example runs\<close>

text \<open>A random source that yields the listed strings and \<open>ZZZZ9\<close> ever after.\<close>

definition draws_from :: "string list \<Rightarrow> nat \<Rightarrow> string" where
  "draws_from xs i = (if i < length xs then xs ! i else ''ZZZZ9'')"

text \<open>The server right after its start, about to draw \<open>AAAAA\<close> and then \<open>BBBBB\<close>.\<close>

definition ex_start :: system where
  "ex_start =
     (Map.empty,
      \<lparr>rooms = Map.empty, outbox = [], closed = {},
       draws = draws_from [''AAAAA'', ''BBBBB''], unicode_upper = id\<rparr>)"

text \<open>
  Connection 1 registers as sender twice, which gives it the rooms \<open>AAAAA\<close> and then
  \<open>BBBBB\<close>; connection 2 joins \<open>AAAAA\<close>; \<open>report.pdf\<close> is uploaded to \<open>AAAAA\<close>.
\<close>

definition ex_session :: "event list" where
  "ex_session =
     [Ws_connect 1, Ws_connect 2,
      Ws_message 1 register_sender_msg, Ws_message 1 register_sender_msg,
      Ws_message 2 (register_receiver_msg ''AAAAA''),
      Post_upload \<lparr>form_code = Some ''AAAAA'', file_part = Some (''report.pdf'', ''%PDF'')\<rparr>]"

text \<open>
  Connection 1 registers as sender twice and goes away, which removes \<open>BBBBB\<close> and leaves
  \<open>AAAAA\<close> behind with the closed connection as its sender; then connection 2 opens.
\<close>

definition ex_orphan_session :: "event list" where
  "ex_orphan_session =
     [Ws_connect 1, Ws_message 1 register_sender_msg, Ws_message 1 register_sender_msg,
      Ws_close 1, Ws_connect 2]"


section \<open>The example codes in upper case\<close>

lemma upper_AB12C: "upper ''AB12C'' = ''AB12C''"
  by code_simp

lemma upper_ab12c: "upper ''ab12c'' = ''AB12C''"
  by code_simp

lemma upper_AAAAA: "upper ''AAAAA'' = ''AAAAA''"
  by code_simp

lemma is_ascii_codes: "is_ascii ''AB12C''" "is_ascii ''ab12c''" "is_ascii ''AAAAA''"
  by code_simp+

lemma str_upper_AB12C: "str_upper s ''AB12C'' = ''AB12C''"
  by (simp add: str_upper_def is_ascii_codes upper_AB12C)

lemma str_upper_ab12c: "str_upper s ''ab12c'' = ''AB12C''"
  by (simp add: str_upper_def is_ascii_codes upper_ab12c)

lemma str_upper_AAAAA: "str_upper s ''AAAAA'' = ''AAAAA''"
  by (simp add: str_upper_def is_ascii_codes upper_AAAAA)

section \<open>Uploads and downloads\<close>

text \<open>
  Claim C1. An upload to a room with no bound receiver should fail and leave the room's
  stored name and bytes as they were. The handler answers 400 "Receiver not connected."
  but has stored the file by then: at room \<open>AB12C\<close> with no receiver, the upload of
  \<open>report.pdf\<close> is refused, the room holds the file afterwards, and a download that
  found nothing before the refused upload serves the file after it.
\<close>

theorem upload_no_receiver_stores_payload:
  "upload_file \<lparr>form_code = Some ''AB12C'', file_part = Some (''report.pdf'', ''%PDF'')\<rparr> ex_waiting
     = (Resp ''Receiver not connected.'' 400,
        ex_waiting\<lparr>rooms := [''AB12C'' \<mapsto>
          (fresh_room 1)\<lparr>filename := Some ''report.pdf'', file_data := Some ''%PDF''\<rparr>]\<rparr>)
   \<and> fst (download_file (Some ''AB12C'') ex_waiting) = Resp ''File not found or link expired.'' 404
   \<and> fst (download_file (Some ''AB12C'')
          (snd (upload_file
             \<lparr>form_code = Some ''AB12C'', file_part = Some (''report.pdf'', ''%PDF'')\<rparr> ex_waiting)))
       = Send_file ''%PDF'' (Some ''report.pdf'')"
  by (simp add: upload_file_def download_file_def ex_waiting_def fresh_room_def)

text \<open>
  Claim C2, the counterexample. The claim makes non-empty bytes a condition of success and
  has a named but empty file refused. The handler tests the file's name, never its
  length: with the receiver bound, the upload of \<open>empty.txt\<close> holding no bytes is answered
  200 and the receiver is told of a file of size 0.
\<close>

theorem upload_named_empty_file_succeeds:
  "upload_file \<lparr>form_code = Some ''AB12C'', file_part = Some (''empty.txt'', [])\<rparr> ex_joined
     = (Resp ''File uploaded and receiver notified.'' 200,
        ex_joined\<lparr>rooms := [''AB12C'' \<mapsto>
            (fresh_room 1)\<lparr>receiver := Some 2, filename := Some ''empty.txt'', file_data := Some []\<rparr>],
          outbox := [(2, [(''type'', JStr ''file_ready''), (''filename'', JStr ''empty.txt''),
                          (''filesize'', JNum 0)])]\<rparr>)"
  by (simp add: upload_file_def send_def file_ready_def ex_joined_def fresh_room_def)

text \<open>
  Claim C2, as amended. For a POST to \<open>/upload\<close> whose code is in its upper-case form, at a
  time when the receiver bound to the room it names, if there is one, has its connection
  open: the request is answered with success exactly when it carries a non-empty code and a
  file part with a non-empty file name, a room is stored under the code, and a receiver is
  bound to the room; the bytes may be empty. On success exactly one \<open>file_ready\<close> message,
  with the file's name and length, is added for that receiver. In every other case the
  answer has status 400 and no message is sent.
\<close>

theorem upload_file_success_iff:
  assumes "\<forall>code. form_code req = Some code \<longrightarrow> str_upper s code = code"
    and "\<forall>code r ws. form_code req = Some code \<and> rooms s code = Some r \<and> receiver r = Some ws
           \<longrightarrow> ws \<notin> closed s"
  shows
   "((status (fst (upload_file req s)) = 200) =
      (\<exists>code name file_bytes r ws.
         form_code req = Some code \<and> code \<noteq> [] \<and> file_part req = Some (name, file_bytes) \<and>
         name \<noteq> [] \<and> rooms s code = Some r \<and> receiver r = Some ws))
   \<and> (\<forall>code name file_bytes r ws.
         form_code req = Some code \<and> code \<noteq> [] \<and> file_part req = Some (name, file_bytes) \<and>
         name \<noteq> [] \<and> rooms s code = Some r \<and> receiver r = Some ws
         \<longrightarrow> outbox (snd (upload_file req s)) = outbox s @ [(ws, file_ready name file_bytes)])
   \<and> (status (fst (upload_file req s)) \<noteq> 200 \<longrightarrow>
         status (fst (upload_file req s)) = 400 \<and> outbox (snd (upload_file req s)) = outbox s)"
proof (cases "file_part req")
  case None
  then show ?thesis by (simp add: upload_file_def)
next
  case (Some part)
  obtain name fb where part: "part = (name, fb)" by (cases part)
  show ?thesis
  proof (cases "form_code req")
    case None
    with Some show ?thesis by (simp add: upload_file_def split: prod.splits)
  next
    case code: (Some code)
    show ?thesis
    proof (cases "code = [] \<or> rooms s code = None \<or> name = []")
      case True
      with Some part code show ?thesis
        by (auto simp: upload_file_def split: option.splits)
    next
      case False
      then obtain r where r: "rooms s code = Some r" and ne: "code \<noteq> []" "name \<noteq> []" by auto
      show ?thesis
      proof (cases "receiver r")
        case None
        with Some part code r ne show ?thesis by (simp add: upload_file_def Let_def)
      next
        case rw: (Some ws)
        with assms(2) code r have "ws \<notin> closed s" by blast
        with Some part code r ne rw show ?thesis
          by (simp add: upload_file_def Let_def send_def)
      qed
    qed
  qed
qed

text \<open>The amended claim at three requests with the code \<open>AB12C\<close>: a file for the joined room,
  the same file before anyone has joined, and a request with no file part.\<close>

theorem upload_file_success_iff_witness:
  "status (fst (upload_file
      \<lparr>form_code = Some ''AB12C'', file_part = Some (''report.pdf'', ''%PDF'')\<rparr> ex_joined)) = 200
   \<and> outbox (snd (upload_file
      \<lparr>form_code = Some ''AB12C'', file_part = Some (''report.pdf'', ''%PDF'')\<rparr> ex_joined))
     = [(2, file_ready ''report.pdf'' ''%PDF'')]
   \<and> status (fst (upload_file
      \<lparr>form_code = Some ''AB12C'', file_part = Some (''report.pdf'', ''%PDF'')\<rparr> ex_waiting)) = 400
   \<and> status (fst (upload_file \<lparr>form_code = Some ''AB12C'', file_part = None\<rparr> ex_joined)) = 400
   \<and> outbox (snd (upload_file \<lparr>form_code = Some ''AB12C'', file_part = None\<rparr> ex_joined)) = []"
proof -
  let ?req = "\<lparr>form_code = Some ''AB12C'', file_part = Some (''report.pdf'', ''%PDF'')\<rparr>"
  let ?bad = "\<lparr>form_code = Some ''AB12C'', file_part = None\<rparr>"
  have canon: "\<forall>code. form_code ?req = Some code \<longrightarrow> str_upper ex_joined code = code"
    "\<forall>code. form_code ?req = Some code \<longrightarrow> str_upper ex_waiting code = code"
    "\<forall>code. form_code ?bad = Some code \<longrightarrow> str_upper ex_joined code = code"
    by (simp_all add: str_upper_AB12C)
  have opn: "\<forall>code r ws. form_code ?req = Some code \<and> rooms ex_joined code = Some r \<and>
        receiver r = Some ws \<longrightarrow> ws \<notin> closed ex_joined"
    "\<forall>code r ws. form_code ?req = Some code \<and> rooms ex_waiting code = Some r \<and>
        receiver r = Some ws \<longrightarrow> ws \<notin> closed ex_waiting"
    "\<forall>code r ws. form_code ?bad = Some code \<and> rooms ex_joined code = Some r \<and>
        receiver r = Some ws \<longrightarrow> ws \<notin> closed ex_joined"
    by (simp_all add: ex_joined_def ex_waiting_def)
  have room: "rooms ex_joined ''AB12C'' = Some ((fresh_room 1)\<lparr>receiver := Some 2\<rparr>)"
    "rooms ex_waiting ''AB12C'' = Some (fresh_room 1)"
    "outbox ex_joined = []"
    by (simp_all add: ex_joined_def ex_waiting_def)
  from upload_file_success_iff[OF canon(1) opn(1)] room
  have a: "status (fst (upload_file ?req ex_joined)) = 200"
    "outbox (snd (upload_file ?req ex_joined)) = [(2, file_ready ''report.pdf'' ''%PDF'')]"
    by (simp_all add: fresh_room_def)
  from upload_file_success_iff[OF canon(2) opn(2)] room
  have b: "status (fst (upload_file ?req ex_waiting)) = 400"
    by (simp add: fresh_room_def)
  from upload_file_success_iff[OF canon(3) opn(3)] room
  have c: "status (fst (upload_file ?bad ex_joined)) = 400"
    "outbox (snd (upload_file ?bad ex_joined)) = []"
    by simp_all
  from a b c show ?thesis by simp
qed

section \<open>Codes and letter case\<close>

text \<open>
  Claim C5. A code should address the same room in any letter case at the receiver's
  join, at \<open>/upload\<close> and at \<open>/download\<close>. Only the join upper-cases it. With the file
  stored under \<open>AB12C\<close>, a download with \<open>AB12C\<close> serves it and one with \<open>ab12c\<close> is
  answered "Invalid download link."; an upload with \<open>ab12c\<close> is answered "Invalid request"
  where one with \<open>AB12C\<close> succeeds; a join with \<open>ab12c\<close> binds the receiver to \<open>AB12C\<close>.
\<close>

theorem http_codes_case_sensitive:
  "fst (download_file (Some ''AB12C'') ex_uploaded) = Send_file ''%PDF'' (Some ''report.pdf'')
   \<and> fst (download_file (Some ''ab12c'') ex_uploaded) = Resp ''Invalid download link.'' 400
   \<and> upload_file \<lparr>form_code = Some ''ab12c'', file_part = Some (''report.pdf'', ''%PDF'')\<rparr> ex_joined
       = (Resp ''Invalid request'' 400, ex_joined)
   \<and> status (fst (upload_file
        \<lparr>form_code = Some ''AB12C'', file_part = Some (''report.pdf'', ''%PDF'')\<rparr> ex_joined)) = 200
   \<and> handle_message 2 (register_receiver_msg ''ab12c'') new_conn ex_waiting
       = Some (Continue, \<lparr>my_code = Some ''AB12C'', my_role = Some Receiver\<rparr>,
               ex_waiting\<lparr>rooms := [''AB12C'' \<mapsto> (fresh_room 1)\<lparr>receiver := Some 2\<rparr>],
                 outbox := [(1, receiver_joined), (2, join_ack)]\<rparr>)"
  by (simp add: download_file_def upload_file_def handle_message_def register_receiver_def
        register_receiver_msg_def send_def str_upper_ab12c Let_def
        ex_uploaded_def ex_joined_def ex_waiting_def fresh_room_def)

section \<open>Joining a room\<close>

text \<open>
  Claim C8. A successful join should push \<open>receiver_joined\<close> to the sender and acknowledge
  the receiver with \<open>waiting_for_file\<close>. The sender does get \<open>receiver_joined\<close>; the
  acknowledgement the handler sends has the type \<open>wating_for_file\<close>.
\<close>

theorem join_ack_type_misspelt:
  "handle_message 2 (register_receiver_msg ''AB12C'') new_conn ex_waiting
     = Some (Continue, \<lparr>my_code = Some ''AB12C'', my_role = Some Receiver\<rparr>,
             ex_waiting\<lparr>rooms := [''AB12C'' \<mapsto> (fresh_room 1)\<lparr>receiver := Some 2\<rparr>],
               outbox := [(1, [(''type'', JStr ''receiver_joined'')]),
                          (2, [(''type'', JStr ''wating_for_file'')])]\<rparr>)
   \<and> map_of join_ack ''type'' \<noteq> Some (JStr ''waiting_for_file'')"
  by (simp add: handle_message_def register_receiver_def register_receiver_msg_def send_def Let_def
        str_upper_AB12C receiver_joined_def join_ack_def ex_waiting_def fresh_room_def)

section \<open>The code generator\<close>

lemma generate_code_Some_free:
  assumes "generate_code rms ds = Some y"
  shows "rms (fst y) = None"
  by (rule generate_code.raw_induct[where P = "\<lambda>rms ds y. rms (fst y) = None", OF _ assms])
     (auto split: if_splits)

lemma generate_code_Some_index:
  assumes "generate_code rms ds = Some y"
  shows "\<exists>n. rms (ds n) = None"
proof (rule generate_code.raw_induct[where P = "\<lambda>rms ds y. \<exists>n. rms (ds n) = None", OF _ assms])
  fix f :: "(string \<rightharpoonup> room) \<Rightarrow> (nat \<Rightarrow> string) \<Rightarrow> (string \<times> (nat \<Rightarrow> string)) option"
  fix rms ds y
  assume ih: "\<And>rms ds y. f rms ds = Some y \<Longrightarrow> \<exists>n. rms (ds n) = None"
    and eq: "(if rms (ds 0) = None then Some (ds 0, \<lambda>i. ds (Suc i))
              else f rms (\<lambda>i. ds (Suc i))) = Some y"
  show "\<exists>n. rms (ds n) = None"
  proof (cases "rms (ds 0) = None")
    case True
    then show ?thesis by blast
  next
    case False
    with eq have "f rms (\<lambda>i. ds (Suc i)) = Some y" by simp
    from ih[OF this] show ?thesis by blast
  qed
qed

lemma generate_code_all_collide:
  assumes "\<And>i. rms (ds i) \<noteq> None"
  shows "generate_code rms ds = None"
proof (cases "generate_code rms ds")
  case None
  then show ?thesis .
next
  case (Some y)
  from generate_code_Some_index[OF this] assms show ?thesis by blast
qed

lemma generate_code_first_free:
  "rms (ds n) = None \<Longrightarrow> (\<And>i. i < n \<Longrightarrow> rms (ds i) \<noteq> None)
   \<Longrightarrow> generate_code rms ds = Some (ds n, \<lambda>i. ds (Suc (n + i)))"
proof (induction n arbitrary: ds)
  case 0
  then show ?case by (subst generate_code.simps) simp
next
  case (Suc n)
  have c0: "rms (ds 0) \<noteq> None" using Suc.prems(2)[of 0] by simp
  have "generate_code rms (\<lambda>i. ds (Suc i)) = Some (ds (Suc n), \<lambda>i. ds (Suc (Suc n + i)))"
    using Suc.IH[of "\<lambda>i. ds (Suc i)"] Suc.prems by simp
  then show ?case by (subst generate_code.simps) (simp only: c0 if_False)
qed

text \<open>
  Claim C6, the counterexample. The claim gives the generator a retry cap and a failure
  \<open>CodeSpaceExhausted\<close>. The loop is \<open>while True\<close> with the one exit \<open>return code\<close>: with
  \<open>ZZZZ9\<close> in use and a random source that keeps drawing \<open>ZZZZ9\<close>, the call never returns.
\<close>

theorem generate_code_never_returns:
  "generate_code [''ZZZZ9'' \<mapsto> fresh_room 1] (draws_from []) = None"
  by (rule generate_code_all_collide) (simp add: draws_from_def)

text \<open>
  Claim C6, as amended. The generator retries for as long as the candidates drawn are keys
  of \<open>rooms\<close>, with no cap and no failure of its own: when the draw number \<open>n\<close> is the first
  that is not in use it returns that draw, after \<open>n\<close> retries, whatever \<open>n\<close> is; when every
  draw is in use it never returns.
\<close>

theorem generate_code_first_free_or_never:
  "(rms (ds n) = None \<and> (\<forall>i<n. rms (ds i) \<noteq> None)
      \<longrightarrow> generate_code rms ds = Some (ds n, \<lambda>i. ds (Suc (n + i))))
   \<and> ((\<forall>i. rms (ds i) \<noteq> None) \<longrightarrow> generate_code rms ds = None)"
  using generate_code_first_free[of rms ds n] generate_code_all_collide[of rms ds] by blast

text \<open>Two colliding draws, then a free one: the third draw is returned.\<close>

theorem generate_code_first_free_or_never_witness:
  "map_option fst
     (generate_code (rooms ex_waiting) (draws_from [''AB12C'', ''AB12C'', ''QQ7QQ''])) = Some ''QQ7QQ''
   \<and> generate_code (rooms ex_waiting) (draws_from [''AB12C'']) = Some (''ZZZZ9'', draws_from [])"
  using generate_code_first_free_or_never
          [of "rooms ex_waiting" "draws_from [''AB12C'', ''AB12C'', ''QQ7QQ'']" "Suc (Suc 0)"]
        generate_code_first_free_or_never
          [of "rooms ex_waiting" "draws_from [''AB12C'']" "Suc 0"]
  by (simp add: ex_waiting_def draws_from_def less_Suc_eq fun_eq_iff)

section \<open>The outcomes of a join\<close>

text \<open>What a join does, for a \<open>register_receiver\<close> message whose code is a string, or absent
  and so the empty string, on an open connection.\<close>

lemma rr_absent:
  assumes "ws \<notin> closed s"
    and "map_of message ''code'' = Some (JStr raw) \<or> map_of message ''code'' = None \<and> raw = []"
    and "rooms s (str_upper s raw) = None"
  shows "register_receiver ws message c s
          = Some (Continue, c, s\<lparr>outbox := outbox s @ [(ws, error_msg ''Invalid or expired code.'')]\<rparr>)"
  using assms by (auto simp: register_receiver_def reject_def send_def)

lemma rr_bound:
  assumes "ws \<notin> closed s"
    and "map_of message ''code'' = Some (JStr raw) \<or> map_of message ''code'' = None \<and> raw = []"
    and "rooms s (str_upper s raw) = Some r" and "receiver r = Some other"
  shows "register_receiver ws message c s
          = Some (Continue, c, s\<lparr>outbox := outbox s @ [(ws, error_msg ''Invalid or expired code.'')]\<rparr>)"
  using assms by (auto simp: register_receiver_def reject_def send_def)

lemma rr_free:
  assumes "ws \<notin> closed s"
    and "map_of message ''code'' = Some (JStr raw) \<or> map_of message ''code'' = None \<and> raw = []"
    and "rooms s (str_upper s raw) = Some r" and "receiver r = None"
  shows "\<exists>out s1. register_receiver ws message c s
             = Some (out, \<lparr>my_code = Some (str_upper s raw), my_role = Some Receiver\<rparr>, s1)
           \<and> rooms s1 = (rooms s)(str_upper s raw \<mapsto> r\<lparr>receiver := Some ws\<rparr>)
           \<and> (out = Continue) = (\<forall>sender_ws. sender r = Some sender_ws \<longrightarrow> sender_ws \<notin> closed s)"
  using assms
  by (cases "sender r") (auto simp: register_receiver_def send_def Let_def)

lemma rr_free_open:
  assumes "ws \<notin> closed s"
    and "map_of message ''code'' = Some (JStr raw) \<or> map_of message ''code'' = None \<and> raw = []"
    and "rooms s (str_upper s raw) = Some r" and "receiver r = None"
    and "sender r = Some sender_ws" and "sender_ws \<notin> closed s"
  shows "register_receiver ws message c s
     = Some (Continue, \<lparr>my_code = Some (str_upper s raw), my_role = Some Receiver\<rparr>,
         s\<lparr>rooms := (rooms s)(str_upper s raw \<mapsto> r\<lparr>receiver := Some ws\<rparr>),
           outbox := outbox s @ [(sender_ws, receiver_joined), (ws, join_ack)]\<rparr>)"
  using assms by (auto simp: register_receiver_def send_def Let_def)

section \<open>Closing a connection\<close>

lemma try_send_rooms [simp]: "rooms (try_send p m s) = rooms s"
  by (simp add: try_send_def send_def)

lemma try_send_closed [simp]: "closed (try_send p m s) = closed s"
  by (simp add: try_send_def send_def)

lemma try_send_draws [simp]: "draws (try_send p m s) = draws s"
  by (simp add: try_send_def send_def)

lemma try_send_outbox:
  "outbox (try_send p m s) = (if p \<in> closed s then outbox s else outbox s @ [(p, m)])"
  by (simp add: try_send_def send_def)

lemma cleanup_rooms:
  "rooms (cleanup ws c s) k = (if my_code c = Some k \<and> k \<noteq> [] then None else rooms s k)"
  by (cases "my_code c") (auto simp: cleanup_def Let_def split: option.splits)

lemma cleanup_closed [simp]: "closed (cleanup ws c s) = closed s"
  by (cases "my_code c") (auto simp: cleanup_def Let_def split: option.splits)

lemma cleanup_unbound:
  "my_code c = None \<Longrightarrow> cleanup ws c s = s"
  by (simp add: cleanup_def)

lemma cleanup_absent:
  "my_code c = Some code \<Longrightarrow> rooms s code = None \<Longrightarrow> cleanup ws c s = s"
  by (simp add: cleanup_def)

lemma cleanup_outbox_sender:
  assumes "my_code c = Some code" "code \<noteq> []" "rooms s code = Some r" "my_role c = Some Sender"
  shows "outbox (cleanup ws c s) =
     (case receiver r of
        None \<Rightarrow> outbox s
      | Some p \<Rightarrow> if p \<in> closed s then outbox s
                  else outbox s @ [(p, error_msg ''Sender disconnected.'')])"
  using assms by (cases "receiver r") (simp_all add: cleanup_def Let_def try_send_outbox)

lemma cleanup_outbox_receiver:
  assumes "my_code c = Some code" "code \<noteq> []" "rooms s code = Some r" "my_role c = Some Receiver"
  shows "outbox (cleanup ws c s) =
     (case sender r of
        None \<Rightarrow> outbox s
      | Some p \<Rightarrow> if p \<in> closed s then outbox s
                  else outbox s @ [(p, error_msg ''Receiver disconnected.'')])"
  using assms by (cases "sender r") (simp_all add: cleanup_def Let_def try_send_outbox)

lemma download_absent:
  "rooms s code = None \<Longrightarrow> download_file (Some code) s = (Resp ''Invalid download link.'' 400, s)"
  by (simp add: download_file_def)

section \<open>Malformed messages\<close>

text \<open>
  Claim C9, the counterexample. The claim has a malformed message ignored, the connection
  left open and no room torn down. \<open>json.loads\<close> stands inside the \<open>try\<close> that encloses the
  whole loop, so text that is not JSON leaves the loop: the sender of room \<open>AB12C\<close> sends
  such text, its handler ends, the room is removed and the receiver is told
  "Sender disconnected.".
\<close>

theorem malformed_message_ends_handler:
  "handle_message 1 Invalid_json \<lparr>my_code = Some ''AB12C'', my_role = Some Sender\<rparr> ex_joined
     = Some (Raised, \<lparr>my_code = Some ''AB12C'', my_role = Some Sender\<rparr>, ex_joined)
   \<and> handler_after [Ws_message 1 Invalid_json]
         ([1 \<mapsto> \<lparr>my_code = Some ''AB12C'', my_role = Some Sender\<rparr>], ex_joined) 1 = Some None
   \<and> room_after [Ws_message 1 Invalid_json]
         ([1 \<mapsto> \<lparr>my_code = Some ''AB12C'', my_role = Some Sender\<rparr>], ex_joined) ''AB12C'' = Some None
   \<and> outbox_after [Ws_message 1 Invalid_json]
         ([1 \<mapsto> \<lparr>my_code = Some ''AB12C'', my_role = Some Sender\<rparr>], ex_joined)
       = Some [(2, error_msg ''Sender disconnected.'')]"
  by (simp add: handle_message_def handler_after_def room_after_def outbox_after_def step_def
        cleanup_def try_send_def send_def Let_def ex_joined_def fresh_room_def)

text \<open>
  Claim C9, as amended. Empty data is skipped, and a JSON object whose \<open>type\<close> is neither
  \<open>register_sender\<close> nor \<open>register_receiver\<close> is ignored: the loop goes on with nothing
  changed. Text that is not JSON, and JSON that is not an object, raise inside the loop:
  the handler leaves the loop, runs its cleanup (which tears down the room \<open>my_code\<close> names,
  if any) and returns, which closes the connection.
\<close>

theorem message_handling_by_kind:
  "handle_message ws Empty c s = Some (Continue, c, s)
   \<and> (map_of message ''type'' \<noteq> Some (JStr ''register_sender'') \<and>
      map_of message ''type'' \<noteq> Some (JStr ''register_receiver'')
      \<longrightarrow> handle_message ws (Object message) c s = Some (Continue, c, s))
   \<and> handle_message ws Invalid_json c s = Some (Raised, c, s)
   \<and> handle_message ws Non_object c s = Some (Raised, c, s)
   \<and> (conns ws = Some c \<and> (data = Invalid_json \<or> data = Non_object)
      \<longrightarrow> step (Ws_message ws data) (conns, s)
          = Some (conns(ws := None), (cleanup ws c s)\<lparr>closed := insert ws (closed s)\<rparr>))
   \<and> (conns ws = Some c \<longrightarrow> step (Ws_message ws Empty) (conns, s) = Some (conns, s))"
  by (auto simp: handle_message_def step_def Let_def fun_upd_idem)

text \<open>An object of unknown type, a JSON value that is no object, and empty data, on a
  connection that has registered nothing.\<close>

theorem message_handling_by_kind_witness:
  "handle_message 1 (Object [(''type'', JStr ''ping'')]) new_conn ex_joined
     = Some (Continue, new_conn, ex_joined)
   \<and> step (Ws_message 1 Non_object) ([1 \<mapsto> new_conn], ex_joined)
     = Some ([1 \<mapsto> new_conn](1 := None), (cleanup 1 new_conn ex_joined)\<lparr>closed := insert 1 (closed ex_joined)\<rparr>)
   \<and> step (Ws_message 1 Empty) ([1 \<mapsto> new_conn], ex_joined) = Some ([1 \<mapsto> new_conn], ex_joined)"
  using message_handling_by_kind
          [of 1 new_conn ex_joined "[(''type'', JStr ''ping'')]" "[1 \<mapsto> new_conn]" Non_object]
  by simp

lemma register_sender_result:
  assumes "register_sender ws c s = Some (out, c1, s1)"
  shows "\<exists>code. my_code c1 = Some code \<and> my_role c1 = Some Sender \<and> rooms s code = None
           \<and> rooms s1 = (rooms s)(code \<mapsto> fresh_room ws) \<and> closed s1 = closed s"
proof (cases "generate_code (rooms s) (draws s)")
  case None
  with assms show ?thesis by (simp add: register_sender_def)
next
  case (Some y)
  obtain code rest where y: "y = (code, rest)" by (cases y)
  from generate_code_Some_free[OF Some] y have free: "rooms s code = None" by simp
  from assms Some y free show ?thesis
    by (auto simp: register_sender_def send_def Let_def split: if_splits)
qed


lemma step_close:
  "conns ws = Some c \<Longrightarrow>
   step (Ws_close ws) (conns, s)
     = Some (conns(ws := None), cleanup ws c (s\<lparr>closed := insert ws (closed s)\<rparr>))"
  by (simp add: step_def)


lemma generate_code_free_now:
  "rms (ds 0) = None \<Longrightarrow> generate_code rms ds = Some (ds 0, \<lambda>i. ds (Suc i))"
  by (subst generate_code.simps) simp

lemma ex_session_run:
  "run ex_session ex_start =
     Some ([1 \<mapsto> \<lparr>my_code = Some ''BBBBB'', my_role = Some Sender\<rparr>,
            2 \<mapsto> \<lparr>my_code = Some ''AAAAA'', my_role = Some Receiver\<rparr>],
           \<lparr>rooms = [''AAAAA'' \<mapsto> \<lparr>sender = Some 1, receiver = Some 2,
                       filename = Some ''report.pdf'', file_data = Some ''%PDF''\<rparr>,
                     ''BBBBB'' \<mapsto> fresh_room 1],
             outbox = [(1, code_generated ''AAAAA''), (1, code_generated ''BBBBB''),
                       (1, receiver_joined), (2, join_ack),
                       (2, file_ready ''report.pdf'' ''%PDF'')],
             closed = {},
             draws = (\<lambda>i. draws_from [''AAAAA'', ''BBBBB''] (Suc (Suc i))),
             unicode_upper = id\<rparr>)"
  by (simp add: ex_session_def ex_start_def step_def new_conn_def handle_message_def
        register_sender_msg_def register_receiver_msg_def register_sender_def
        register_receiver_def generate_code_free_now draws_from_def send_def upload_file_def
        str_upper_AAAAA fresh_room_def Let_def fun_upd_twist del: One_nat_def)

lemma run_append:
  "run (es @ es1) sys = (case run es sys of None \<Rightarrow> None | Some sys1 \<Rightarrow> run es1 sys1)"
  by (induction es arbitrary: sys) (auto split: option.splits)

text \<open>
  Claim C3, the counterexample. The claim removes the room of every connection bound to
  one as sender or receiver when that connection closes. Connection 1 is the sender of
  \<open>AAAAA\<close> and, having registered again, of \<open>BBBBB\<close>; connection 2 has joined \<open>AAAAA\<close> and
  the file is uploaded there. When connection 1 closes, only \<open>BBBBB\<close> is removed: \<open>AAAAA\<close>
  stays in the registry with connection 1 as its sender, connection 2 is sent nothing, and
  a download with \<open>AAAAA\<close> still serves the file.
\<close>

theorem sender_close_leaves_earlier_room:
  "room_after ex_session ex_start ''AAAAA''
     = Some (Some \<lparr>sender = Some 1, receiver = Some 2,
                    filename = Some ''report.pdf'', file_data = Some ''%PDF''\<rparr>)
   \<and> room_after (ex_session @ [Ws_close 1]) ex_start ''AAAAA''
     = Some (Some \<lparr>sender = Some 1, receiver = Some 2,
                    filename = Some ''report.pdf'', file_data = Some ''%PDF''\<rparr>)
   \<and> room_after (ex_session @ [Ws_close 1]) ex_start ''BBBBB'' = Some None
   \<and> outbox_after (ex_session @ [Ws_close 1]) ex_start = outbox_after ex_session ex_start
   \<and> download_after (ex_session @ [Ws_close 1]) ex_start ''AAAAA''
     = Some (Send_file ''%PDF'' (Some ''report.pdf''))"
  by (simp add: room_after_def outbox_after_def download_after_def run_append ex_session_run
        step_def cleanup_def try_send_def send_def download_file_def fresh_room_def Let_def
        del: One_nat_def)

lemma raised_rooms:
  assumes "handle_message ws data c s = Some (Raised, c1, sm)"
    and "my_code c1 = Some code" and "k \<noteq> code"
  shows "rooms sm k = rooms s k"
proof (cases data)
  case Empty
  with assms show ?thesis by (simp add: handle_message_def)
next
  case Invalid_json
  with assms show ?thesis by (simp add: handle_message_def)
next
  case Non_object
  with assms show ?thesis by (simp add: handle_message_def)
next
  case (Object message)
  show ?thesis
  proof (cases "map_of message ''type'' = Some (JStr ''register_sender'')")
    case True
    with assms(1) Object have "register_sender ws c s = Some (Raised, c1, sm)"
      by (simp add: handle_message_def)
    from register_sender_result[OF this] assms(2,3) show ?thesis by auto
  next
    case False
    show ?thesis
    proof (cases "map_of message ''type'' = Some (JStr ''register_receiver'')")
      case True
      with assms(1) Object False have "register_receiver ws message c s = Some (Raised, c1, sm)"
        by (simp add: handle_message_def)
      with assms(2,3) show ?thesis
        by (auto simp: register_receiver_def reject_def send_def Let_def
                 split: option.splits jval.splits if_splits)
    next
      case other: False
      with assms(1) Object False show ?thesis by (simp add: handle_message_def)
    qed
  qed
qed

lemma step_raised:
  "conns ws = Some c \<Longrightarrow> handle_message ws data c s = Some (Raised, c1, sm) \<Longrightarrow>
   step (Ws_message ws data) (conns, s)
     = Some (conns(ws := None), (cleanup ws c1 sm)\<lparr>closed := insert ws (closed sm)\<rparr>)"
  by (simp add: step_def Let_def)

lemma exit_state:
  assumes "conns ws = Some c"
    and "e = Ws_close ws \<and> c1 = c \<and> sm = s\<lparr>closed := insert ws (closed s)\<rparr>
         \<or> (\<exists>data. e = Ws_message ws data \<and> handle_message ws data c s = Some (Raised, c1, sm))"
    and "my_code c1 = Some code"
  shows "\<exists>s1. step e (conns, s) = Some (conns(ws := None), s1)
           \<and> rooms s1 = rooms (cleanup ws c1 sm) \<and> outbox s1 = outbox (cleanup ws c1 sm)
           \<and> (\<forall>k. k \<noteq> code \<longrightarrow> rooms sm k = rooms s k)"
  using assms(2)
proof (elim disjE conjE exE)
  assume "e = Ws_close ws" "c1 = c" "sm = s\<lparr>closed := insert ws (closed s)\<rparr>"
  then show ?thesis using assms(1) by (simp add: step_close[of conns ws c])
next
  fix data
  assume d: "e = Ws_message ws data" "handle_message ws data c s = Some (Raised, c1, sm)"
  from raised_rooms[OF d(2) assms(3)] step_raised[of conns ws c data s c1 sm, OF assms(1) d(2)] d(1)
  show ?thesis by simp
qed

text \<open>
  Claim C3, as amended. The handler of a connection leaves its loop: the client has gone
  away, or the handling of a message has raised, whatever raised it (text that is not
  JSON or is no JSON object, a code that is no string, a send that failed). If \<open>my_code\<close>
  then names a room of the registry, which for a registration or a join that raised after
  it had set \<open>my_code\<close> is the room just created or joined, the handler ends, that room is
  removed and every other room is left as the event found it, the room \<open>my_code\<close> named
  before among them; a download with the removed room's code is answered
  "Invalid download link." with status 400. When \<open>my_role\<close> is the sender and the room has a
  receiver, the receiver is sent "Sender disconnected."; when \<open>my_role\<close> is the receiver and
  the room has a sender, the sender is sent "Receiver disconnected."; when that peer's
  connection is closed, nothing is sent and the room is removed all the same.
\<close>

theorem disconnect_removes_current_room:
  assumes "conns ws = Some c"
    and "e = Ws_close ws \<and> c1 = c \<and> sm = s\<lparr>closed := insert ws (closed s)\<rparr>
         \<or> (\<exists>data. e = Ws_message ws data \<and> handle_message ws data c s = Some (Raised, c1, sm))"
    and "my_code c1 = Some code" and "code \<noteq> []" and "rooms sm code = Some r"
  shows "\<exists>conns1 s1. step e (conns, s) = Some (conns1, s1) \<and> conns1 ws = None
     \<and> rooms s1 code = None
     \<and> (\<forall>k. k \<noteq> code \<longrightarrow> rooms s1 k = rooms s k)
     \<and> download_file (Some code) s1 = (Resp ''Invalid download link.'' 400, s1)
     \<and> (\<forall>p. my_role c1 = Some Sender \<and> receiver r = Some p \<and> p \<notin> closed sm
           \<longrightarrow> outbox s1 = outbox sm @ [(p, error_msg ''Sender disconnected.'')])
     \<and> (\<forall>p. my_role c1 = Some Receiver \<and> sender r = Some p \<and> p \<notin> closed sm
           \<longrightarrow> outbox s1 = outbox sm @ [(p, error_msg ''Receiver disconnected.'')])
     \<and> (\<forall>p. p \<in> closed sm \<and> (my_role c1 = Some Sender \<and> receiver r = Some p \<or>
                                my_role c1 = Some Receiver \<and> sender r = Some p)
           \<longrightarrow> outbox s1 = outbox sm)"
proof -
  from exit_state[where conns = conns and ws = ws and c = c and e = e and ?c1.0 = c1 and sm = sm
        and s = s and code = code] assms(1,2,3) obtain s1 where
    st: "step e (conns, s) = Some (conns(ws := None), s1)"
    and s1: "rooms s1 = rooms (cleanup ws c1 sm)" "outbox s1 = outbox (cleanup ws c1 sm)"
    and fr: "\<forall>k. k \<noteq> code \<longrightarrow> rooms sm k = rooms s k"
    by blast
  have gone: "rooms s1 code = None"
    using assms(3,4) by (simp add: s1(1) cleanup_rooms)
  have frame: "\<forall>k. k \<noteq> code \<longrightarrow> rooms s1 k = rooms s k"
    using assms(3) fr by (simp add: s1(1) cleanup_rooms)
  have dl: "download_file (Some code) s1 = (Resp ''Invalid download link.'' 400, s1)"
    using gone by (rule download_absent)
  have snd: "\<forall>p. my_role c1 = Some Sender \<and> receiver r = Some p \<and> p \<notin> closed sm
           \<longrightarrow> outbox s1 = outbox sm @ [(p, error_msg ''Sender disconnected.'')]"
    using cleanup_outbox_sender[OF assms(3,4,5)] by (auto simp: s1(2))
  have rcv: "\<forall>p. my_role c1 = Some Receiver \<and> sender r = Some p \<and> p \<notin> closed sm
           \<longrightarrow> outbox s1 = outbox sm @ [(p, error_msg ''Receiver disconnected.'')]"
    using cleanup_outbox_receiver[OF assms(3,4,5)] by (auto simp: s1(2))
  have dead: "\<forall>p. p \<in> closed sm \<and> (my_role c1 = Some Sender \<and> receiver r = Some p \<or>
                               my_role c1 = Some Receiver \<and> sender r = Some p)
           \<longrightarrow> outbox s1 = outbox sm"
    using cleanup_outbox_sender[OF assms(3,4,5)] cleanup_outbox_receiver[OF assms(3,4,5)]
    by (auto simp: s1(2))
  from st gone frame dl snd rcv dead show ?thesis by auto
qed

text \<open>Two ways out of the loop. The sender of \<open>AB12C\<close> goes away after the receiver has
  joined. And the sender of \<open>QQ7QQ\<close>, on connection 2, joins \<open>AB12C\<close>, whose sender has
  gone: the join raises with \<open>my_code\<close> naming \<open>AB12C\<close>, which is removed, and \<open>QQ7QQ\<close>
  stays.\<close>

theorem disconnect_removes_current_room_witness:
  "room_after [Ws_close 1]
     ([1 \<mapsto> \<lparr>my_code = Some ''AB12C'', my_role = Some Sender\<rparr>], ex_joined) ''AB12C'' = Some None
   \<and> outbox_after [Ws_close 1]
     ([1 \<mapsto> \<lparr>my_code = Some ''AB12C'', my_role = Some Sender\<rparr>], ex_joined)
     = Some [(2, error_msg ''Sender disconnected.'')]
   \<and> download_after [Ws_close 1]
     ([1 \<mapsto> \<lparr>my_code = Some ''AB12C'', my_role = Some Sender\<rparr>], ex_joined) ''AB12C''
     = Some (Resp ''Invalid download link.'' 400)
   \<and> room_after [Ws_message 2 (register_receiver_msg ''ab12c'')]
     ([2 \<mapsto> \<lparr>my_code = Some ''QQ7QQ'', my_role = Some Sender\<rparr>], ex_abandoned) ''AB12C'' = Some None
   \<and> room_after [Ws_message 2 (register_receiver_msg ''ab12c'')]
     ([2 \<mapsto> \<lparr>my_code = Some ''QQ7QQ'', my_role = Some Sender\<rparr>], ex_abandoned) ''QQ7QQ''
     = Some (Some (fresh_room 2))
   \<and> handler_after [Ws_message 2 (register_receiver_msg ''ab12c'')]
     ([2 \<mapsto> \<lparr>my_code = Some ''QQ7QQ'', my_role = Some Sender\<rparr>], ex_abandoned) 2 = Some None
   \<and> outbox_after [Ws_message 2 (register_receiver_msg ''ab12c'')]
     ([2 \<mapsto> \<lparr>my_code = Some ''QQ7QQ'', my_role = Some Sender\<rparr>], ex_abandoned) = Some []"
proof -
  let ?c = "\<lparr>my_code = Some ''AB12C'', my_role = Some Sender\<rparr>"
  let ?conns = "[1 \<mapsto> ?c]"
  let ?r = "(fresh_room 1)\<lparr>receiver := Some 2\<rparr>"
  let ?sm = "ex_joined\<lparr>closed := insert 1 (closed ex_joined)\<rparr>"
  have h1: "?conns 1 = Some ?c" by simp
  have h2: "Ws_close 1 = Ws_close 1 \<and> ?c = ?c \<and> ?sm = ex_joined\<lparr>closed := insert 1 (closed ex_joined)\<rparr>
      \<or> (\<exists>data. Ws_close 1 = Ws_message 1 data
            \<and> handle_message 1 data ?c ex_joined = Some (Raised, ?c, ?sm))" by simp
  have h3: "my_code ?c = Some ''AB12C''" by simp
  have h4: "''AB12C'' \<noteq> []" by simp
  have h5: "rooms ?sm ''AB12C'' = Some ?r" by (simp add: ex_joined_def)
  from disconnect_removes_current_room[where conns = ?conns and ws = 1 and c = ?c
         and e = "Ws_close 1" and ?c1.0 = ?c and sm = ?sm and s = ex_joined
         and code = "''AB12C''" and r = ?r] h1 h2 h3 h4 h5
  obtain conns1 s1 where st: "step (Ws_close 1) (?conns, ex_joined) = Some (conns1, s1)"
    and gone: "rooms s1 ''AB12C'' = None"
    and dl: "download_file (Some ''AB12C'') s1 = (Resp ''Invalid download link.'' 400, s1)"
    and tell: "\<forall>p. my_role ?c = Some Sender \<and> receiver ?r = Some p \<and> p \<notin> closed ?sm
           \<longrightarrow> outbox s1 = outbox ?sm @ [(p, error_msg ''Sender disconnected.'')]"
    by blast
  have "outbox s1 = outbox ?sm @ [(2, error_msg ''Sender disconnected.'')]"
    using tell[rule_format, of 2] by (simp add: ex_joined_def)
  then have ob: "outbox s1 = [(2, error_msg ''Sender disconnected.'')]"
    by (simp add: ex_joined_def)
  have first: "room_after [Ws_close 1] (?conns, ex_joined) ''AB12C'' = Some None
     \<and> outbox_after [Ws_close 1] (?conns, ex_joined) = Some [(2, error_msg ''Sender disconnected.'')]
     \<and> download_after [Ws_close 1] (?conns, ex_joined) ''AB12C''
         = Some (Resp ''Invalid download link.'' 400)"
    using st gone dl ob by (simp add: room_after_def outbox_after_def download_after_def)
  let ?d = "\<lparr>my_code = Some ''QQ7QQ'', my_role = Some Sender\<rparr>"
  let ?d1 = "\<lparr>my_code = Some ''AB12C'', my_role = Some Receiver\<rparr>"
  let ?dconns = "[2 \<mapsto> ?d]"
  let ?q = "(fresh_room 1)\<lparr>receiver := Some 2\<rparr>"
  let ?m = "ex_abandoned\<lparr>rooms := (rooms ex_abandoned)(''AB12C'' \<mapsto> ?q)\<rparr>"
  let ?e = "Ws_message 2 (register_receiver_msg ''ab12c'')"
  have hm: "handle_message 2 (register_receiver_msg ''ab12c'') ?d ex_abandoned = Some (Raised, ?d1, ?m)"
    by (simp add: handle_message_def register_receiver_msg_def register_receiver_def
          str_upper_ab12c ex_abandoned_def fresh_room_def send_def Let_def)
  have g1: "?dconns 2 = Some ?d" by simp
  have g2: "?e = Ws_close 2 \<and> ?d1 = ?d \<and> ?m = ex_abandoned\<lparr>closed := insert 2 (closed ex_abandoned)\<rparr>
      \<or> (\<exists>data. ?e = Ws_message 2 data
            \<and> handle_message 2 data ?d ex_abandoned = Some (Raised, ?d1, ?m))"
    using hm by simp
  have g3: "my_code ?d1 = Some ''AB12C''" by simp
  have g5: "rooms ?m ''AB12C'' = Some ?q" by simp
  from disconnect_removes_current_room[where conns = ?dconns and ws = 2 and c = ?d
         and e = ?e and ?c1.0 = ?d1 and sm = ?m and s = ex_abandoned
         and code = "''AB12C''" and r = ?q] g1 g2 g3 h4 g5
  obtain dconns1 t1 where dst: "step ?e (?dconns, ex_abandoned) = Some (dconns1, t1)"
    and dend: "dconns1 2 = None"
    and dgone: "rooms t1 ''AB12C'' = None"
    and dframe: "\<forall>k. k \<noteq> ''AB12C'' \<longrightarrow> rooms t1 k = rooms ex_abandoned k"
    and ddead: "\<forall>p. p \<in> closed ?m \<and> (my_role ?d1 = Some Sender \<and> receiver ?q = Some p \<or>
                                my_role ?d1 = Some Receiver \<and> sender ?q = Some p)
           \<longrightarrow> outbox t1 = outbox ?m"
    by blast
  have dq: "rooms t1 ''QQ7QQ'' = Some (fresh_room 2)"
    using dframe[rule_format, of "''QQ7QQ''"] by (simp add: ex_abandoned_def)
  have dob: "outbox t1 = []"
    using ddead[rule_format, of 1] by (simp add: ex_abandoned_def fresh_room_def)
  have second: "room_after [?e] (?dconns, ex_abandoned) ''AB12C'' = Some None
     \<and> room_after [?e] (?dconns, ex_abandoned) ''QQ7QQ'' = Some (Some (fresh_room 2))
     \<and> handler_after [?e] (?dconns, ex_abandoned) 2 = Some None
     \<and> outbox_after [?e] (?dconns, ex_abandoned) = Some []"
    using dst dend dgone dq dob by (simp add: room_after_def outbox_after_def handler_after_def)
  from first second show ?thesis by blast
qed

section \<open>Joining a room whose sender has gone\<close>

lemma ex_orphan_run:
  "run ex_orphan_session ex_start =
     Some ([2 \<mapsto> new_conn],
           \<lparr>rooms = [''AAAAA'' \<mapsto> fresh_room 1],
             outbox = [(1, code_generated ''AAAAA''), (1, code_generated ''BBBBB'')],
             closed = {1},
             draws = (\<lambda>i. draws_from [''AAAAA'', ''BBBBB''] (Suc (Suc i))),
             unicode_upper = id\<rparr>)"
  by (simp add: ex_orphan_session_def ex_start_def step_def new_conn_def handle_message_def
        register_sender_msg_def register_sender_def generate_code_free_now draws_from_def
        send_def cleanup_def fresh_room_def Let_def fun_upd_twist fun_eq_iff del: One_nat_def)

text \<open>
  Claim C7. A join should fail when no room is stored under the code or the room has a
  receiver, and succeed otherwise. The two failures are as claimed, and so is the join
  of a room whose sender is connected. A room whose sender has gone is a third case:
  connection 1 registers twice and goes away, which leaves \<open>AAAAA\<close> in the registry with a
  free receiver slot. When connection 2 joins \<open>AAAAA\<close>, the message to the sender raises:
  the room is removed, the handler of connection 2 ends, and connection 2 has been sent
  neither the acknowledgement nor an error.
\<close>

theorem join_with_closed_sender_raises:
  "room_after ex_orphan_session ex_start ''AAAAA'' = Some (Some (fresh_room 1))
   \<and> room_after (ex_orphan_session @ [Ws_message 2 (register_receiver_msg ''AAAAA'')]) ex_start
       ''AAAAA'' = Some None
   \<and> handler_after (ex_orphan_session @ [Ws_message 2 (register_receiver_msg ''AAAAA'')]) ex_start 2
       = Some None
   \<and> outbox_after (ex_orphan_session @ [Ws_message 2 (register_receiver_msg ''AAAAA'')]) ex_start
       = Some [(1, code_generated ''AAAAA''), (1, code_generated ''BBBBB'')]"
  by (simp add: room_after_def handler_after_def outbox_after_def run_append ex_orphan_run
        step_def new_conn_def handle_message_def register_receiver_msg_def register_receiver_def
        str_upper_AAAAA send_def cleanup_def try_send_def fresh_room_def Let_def
        del: One_nat_def)

section \<open>What the cleanup removes\<close>








section \<open>The stored file\<close>

lemma holds_payload_rooms:
  "rooms s1 code = rooms s code \<Longrightarrow> holds_payload s1 code name fb = holds_payload s code name fb"
  by (simp add: holds_payload_def)

lemma reject_rooms:
  "reject ws c s = Some (out, c1, s1) \<Longrightarrow> rooms s1 = rooms s"
  by (auto simp: reject_def send_def split: if_splits)

lemma send_rooms:
  "send p m s = Some s1 \<Longrightarrow> rooms s1 = rooms s"
  by (auto simp: send_def split: if_splits)

lemma register_receiver_payload:
  assumes "register_receiver ws message c s = Some (out, c1, s1)"
    and "holds_payload s code name fb"
  shows "holds_payload s1 code name fb"
proof (cases "case map_of message ''code'' of None \<Rightarrow> Some [] | Some (JStr x) \<Rightarrow> Some x
               | Some _ \<Rightarrow> None")
  case None
  with assms show ?thesis by (simp add: register_receiver_def)
next
  case (Some raw)
  show ?thesis
  proof (cases "rooms s (str_upper s raw)")
    case None
    with assms(1) Some have "reject ws c s = Some (out, c1, s1)"
      by (simp add: register_receiver_def)
    from reject_rooms[OF this] assms(2) show ?thesis by (simp add: holds_payload_def)
  next
    case (Some r)
    note r = this
    show ?thesis
    proof (cases "receiver r = None")
      case False
      with assms(1) \<open>_ = Some raw\<close> r have "reject ws c s = Some (out, c1, s1)"
        by (simp add: register_receiver_def)
      from reject_rooms[OF this] assms(2) show ?thesis by (simp add: holds_payload_def)
    next
      case True
      have "rooms s1 = (rooms s)(str_upper s raw \<mapsto> r\<lparr>receiver := Some ws\<rparr>)"
        using assms(1) \<open>_ = Some raw\<close> r True
        by (auto simp: register_receiver_def Let_def send_def split: option.splits if_splits)
      with assms(2) r show ?thesis by (auto simp: holds_payload_def)
    qed
  qed
qed

lemma register_sender_payload:
  assumes "register_sender ws c s = Some (out, c1, s1)"
    and "holds_payload s code name fb"
  shows "holds_payload s1 code name fb"
proof -
  from register_sender_result[OF assms(1)] obtain k where
    k: "rooms s k = None" "rooms s1 = (rooms s)(k \<mapsto> fresh_room ws)" by blast
  from assms(2) k(1) have "k \<noteq> code" by (auto simp: holds_payload_def)
  with k(2) assms(2) show ?thesis by (simp add: holds_payload_def)
qed

lemma handle_message_payload:
  assumes "handle_message ws data c s = Some (out, c1, s1)"
    and "holds_payload s code name fb"
  shows "holds_payload s1 code name fb"
proof (cases data)
  case (Object message)
  show ?thesis
  proof (cases "map_of message ''type'' = Some (JStr ''register_sender'')")
    case True
    with assms(1) Object have "register_sender ws c s = Some (out, c1, s1)"
      by (simp add: handle_message_def)
    from register_sender_payload[OF this assms(2)] show ?thesis .
  next
    case False
    show ?thesis
    proof (cases "map_of message ''type'' = Some (JStr ''register_receiver'')")
      case True
      with assms(1) Object False have "register_receiver ws message c s = Some (out, c1, s1)"
        by (simp add: handle_message_def)
      from register_receiver_payload[OF this assms(2)] show ?thesis .
    next
      case nr: False
      with assms Object False show ?thesis by (simp add: handle_message_def)
    qed
  qed
qed (use assms in \<open>simp_all add: handle_message_def\<close>)

lemma cleanup_payload:
  "my_code c \<noteq> Some code \<Longrightarrow> holds_payload (cleanup ws c s) code name fb = holds_payload s code name fb"
  by (simp add: holds_payload_def cleanup_rooms)

lemma upload_other_rooms:
  "form_code req \<noteq> Some code \<Longrightarrow> rooms (snd (upload_file req s)) code = rooms s code"
  by (auto simp: upload_file_def Let_def send_def split: option.splits prod.splits if_splits)

lemma download_state [simp]: "snd (download_file k s) = s"
  by (auto simp: download_file_def split: option.splits)

lemma step_payload:
  assumes "\<not> disturbs code e (conns, s)"
    and "step e (conns, s) = Some (conns1, s1)"
    and "holds_payload s code name fb"
  shows "holds_payload s1 code name fb"
proof (cases e)
  case (Ws_connect ws)
  with assms(2,3) show ?thesis by (auto simp: step_def split: if_splits)
next
  case (Ws_message ws data)
  show ?thesis
  proof (cases "conns ws")
    case None
    with assms(2,3) Ws_message show ?thesis by (simp add: step_def)
  next
    case (Some c)
    show ?thesis
    proof (cases "handle_message ws data c s")
      case None
      with assms(2) Ws_message Some show ?thesis by (simp add: step_def)
    next
      case res: (Some y)
      obtain out c1 sm where y: "y = (out, c1, sm)" by (cases y)
      have mid: "holds_payload sm code name fb"
        using handle_message_payload[OF res[unfolded y] assms(3)] .
      show ?thesis
      proof (cases out)
        case Continue
        with assms(2) Ws_message Some res y have "s1 = sm" by (simp add: step_def)
        with mid show ?thesis by simp
      next
        case Raised
        with assms(1) Ws_message Some res y have nc: "my_code c1 \<noteq> Some code"
          by (simp add: disturbs_def)
        from Raised assms(2) Ws_message Some res y
        have "rooms s1 = rooms (cleanup ws c1 sm)" by (auto simp: step_def Let_def)
        then have "holds_payload s1 code name fb = holds_payload (cleanup ws c1 sm) code name fb"
          by (simp add: holds_payload_def)
        with cleanup_payload[OF nc] mid show ?thesis by simp
      qed
    qed
  qed
next
  case (Ws_close ws)
  show ?thesis
  proof (cases "conns ws")
    case None
    with assms(2,3) Ws_close show ?thesis by (simp add: step_def)
  next
    case (Some c)
    with assms(1) Ws_close have nc: "my_code c \<noteq> Some code" by (simp add: disturbs_def)
    from assms(2) Ws_close Some
    have "s1 = cleanup ws c (s\<lparr>closed := insert ws (closed s)\<rparr>)" by (simp add: step_def)
    with cleanup_payload[OF nc] assms(3) show ?thesis by (simp add: holds_payload_def)
  qed
next
  case (Post_upload req)
  with assms(1) have "form_code req \<noteq> Some code" by (simp add: disturbs_def)
  from upload_other_rooms[OF this] assms(2,3) Post_upload show ?thesis
    by (auto simp: step_def holds_payload_def)
next
  case (Get_download k)
  with assms(2,3) show ?thesis by (simp add: step_def)
qed

lemma run_payload:
  "undisturbed code es sys \<Longrightarrow> run es sys = Some sys2 \<Longrightarrow>
   holds_payload (snd sys) code name fb \<Longrightarrow> holds_payload (snd sys2) code name fb"
proof (induction es arbitrary: sys)
  case Nil
  then show ?case by simp
next
  case (Cons e es)
  obtain conns s where sys: "sys = (conns, s)" by (cases sys)
  from Cons.prems(2) obtain sys1 where s1: "step e sys = Some sys1" and r: "run es sys1 = Some sys2"
    by (auto split: option.splits)
  obtain conns1 sm where sys1: "sys1 = (conns1, sm)" by (cases sys1)
  from Cons.prems(1) s1 have nd: "\<not> disturbs code e sys" and u: "undisturbed code es sys1"
    by simp_all
  have "holds_payload sm code name fb"
    using step_payload[OF nd[unfolded sys] s1[unfolded sys sys1]] Cons.prems(3) sys by simp
  with Cons.IH[OF u r] sys1 show ?case by simp
qed

lemma upload_success_stores:
  assumes "form_code req = Some code" and "file_part req = Some (name, fb)"
    and "status (fst (upload_file req s)) = 200"
  shows "code \<noteq> [] \<and> holds_payload (snd (upload_file req s)) code name fb"
  using assms
  by (auto simp: upload_file_def holds_payload_def Let_def send_def
           split: option.splits if_splits)

lemma download_holds:
  "code \<noteq> [] \<Longrightarrow> holds_payload s code name fb \<Longrightarrow>
   download_file (Some code) s = (Send_file fb (Some name), s)"
  by (auto simp: download_file_def holds_payload_def split: option.splits)

text \<open>
  Claim C4. An upload of a file name and bytes to a room has succeeded. Since then no
  upload has named the room's code and no handler whose \<open>my_code\<close> is that code has ended,
  whatever else has happened (other connections opening, registering, joining, failing,
  closing; uploads to other rooms; downloads). Then a download with the room's code sends
  exactly the uploaded bytes under the uploaded name, and leaves the state as it was, so
  the next download sends them again.
\<close>

theorem download_returns_upload:
  assumes "form_code req = Some code" and "file_part req = Some (name, fb)"
    and "status (fst (upload_file req s)) = 200"
    and "undisturbed code es (conns, snd (upload_file req s))"
    and "run es (conns, snd (upload_file req s)) = Some (conns2, s2)"
  shows "download_file (Some code) s2 = (Send_file fb (Some name), s2)"
proof -
  from upload_success_stores[OF assms(1-3)]
  have ne: "code \<noteq> []" and h: "holds_payload (snd (upload_file req s)) code name fb"
    by simp_all
  from run_payload[OF assms(4,5)] h have "holds_payload s2 code name fb" by simp
  with ne show ?thesis by (rule download_holds)
qed

text \<open>After the upload of \<open>report.pdf\<close> to \<open>AB12C\<close>: a download, a third connection that
  opens and is refused the room, and a second download, which sends the file again.\<close>

theorem download_returns_upload_witness:
  "download_after
     [Get_download (Some ''AB12C''), Ws_connect 3,
      Ws_message 3 (register_receiver_msg ''ab12c''), Get_download (Some ''AB12C'')]
     ([1 \<mapsto> \<lparr>my_code = Some ''AB12C'', my_role = Some Sender\<rparr>,
       2 \<mapsto> \<lparr>my_code = Some ''AB12C'', my_role = Some Receiver\<rparr>],
      snd (upload_file
        \<lparr>form_code = Some ''AB12C'', file_part = Some (''report.pdf'', ''%PDF'')\<rparr> ex_joined))
     ''AB12C''
   = Some (Send_file ''%PDF'' (Some ''report.pdf''))"
proof -
  let ?req = "\<lparr>form_code = Some ''AB12C'', file_part = Some (''report.pdf'', ''%PDF'')\<rparr>"
  let ?conns = "[1 \<mapsto> \<lparr>my_code = Some ''AB12C'', my_role = Some Sender\<rparr>,
                 2 \<mapsto> \<lparr>my_code = Some ''AB12C'', my_role = Some Receiver\<rparr>]"
  let ?es = "[Get_download (Some ''AB12C''), Ws_connect 3,
              Ws_message 3 (register_receiver_msg ''ab12c''), Get_download (Some ''AB12C'')]"
  have up: "upload_file ?req ex_joined
      = (Resp ''File uploaded and receiver notified.'' 200,
         ex_joined\<lparr>rooms := [''AB12C'' \<mapsto> \<lparr>sender = Some 1, receiver = Some 2,
              filename = Some ''report.pdf'', file_data = Some ''%PDF''\<rparr>],
            outbox := [(2, file_ready ''report.pdf'' ''%PDF'')]\<rparr>)"
    by (simp add: upload_file_def send_def ex_joined_def fresh_room_def)
  have ok: "status (fst (upload_file ?req ex_joined)) = 200"
    by (simp add: up)
  have su: "snd (upload_file ?req ex_joined)
      = ex_joined\<lparr>rooms := [''AB12C'' \<mapsto> \<lparr>sender = Some 1, receiver = Some 2,
              filename = Some ''report.pdf'', file_data = Some ''%PDF''\<rparr>],
            outbox := [(2, file_ready ''report.pdf'' ''%PDF'')]\<rparr>"
    by (simp add: up)
  have cl: "closed (snd (upload_file ?req ex_joined)) = {}"
    by (simp add: su) (simp add: ex_joined_def)
  have join: "handle_message 3 (register_receiver_msg ''ab12c'') new_conn
        (snd (upload_file ?req ex_joined))
      = Some (Continue, new_conn,
          (snd (upload_file ?req ex_joined))
            \<lparr>outbox := [(2, file_ready ''report.pdf'' ''%PDF''),
                         (3, error_msg ''Invalid or expired code.'')]\<rparr>)"
    by (simp only: su)
       (simp add: handle_message_def register_receiver_msg_def register_receiver_def
          reject_def send_def str_upper_ab12c Let_def ex_joined_def)
  have und: "undisturbed ''AB12C'' ?es (?conns, snd (upload_file ?req ex_joined))"
    by (simp add: disturbs_def step_def join cl)
  obtain conns2 s2 where run: "run ?es (?conns, snd (upload_file ?req ex_joined)) = Some (conns2, s2)"
    by (simp add: step_def join cl)
  have "download_file (Some ''AB12C'') s2 = (Send_file ''%PDF'' (Some ''report.pdf''), s2)"
    using download_returns_upload[of ?req "''AB12C''" "''report.pdf''" "''%PDF''" ex_joined ?es ?conns
            conns2 s2] ok und run
    by simp
  with run show ?thesis by (simp add: download_after_def)
qed

end
